theory Spec2Isabelle
  imports Main
begin

section \<open>Errors\<close>

text \<open>
  Every way a request handler of \<^verbatim>\<open>core/views.py\<close> or a serializer of
  \<^verbatim>\<open>core/serializers.py\<close> ends without its normal result:
  \<^item> \<open>Http404\<close>: \<^verbatim>\<open>self.get_object()\<close> finds no row for the \<^verbatim>\<open>pk\<close> of the URL (status 404);
  \<^item> \<open>NotFound d\<close>: \<^verbatim>\<open>Response({"detail": d}, status=HTTP_404_NOT_FOUND)\<close>;
  \<^item> \<open>BadRequest d\<close>: \<^verbatim>\<open>Response({"detail": d}, status=HTTP_400_BAD_REQUEST)\<close>;
  \<^item> \<open>ValidationError d\<close>: \<^verbatim>\<open>raise serializers.ValidationError(d)\<close> (status 400);
  \<^item> \<open>TypeError\<close>: Python's uncaught \<^verbatim>\<open>TypeError\<close>, raised when a date is compared
    with \<^verbatim>\<open>None\<close> (status 500);
  \<^item> \<open>DjangoValidationError\<close>: \<^verbatim>\<open>django.core.exceptions.ValidationError\<close>, which
    the primary key field raises for a string that is not a UUID. The views catch
    \<^verbatim>\<open>Course.DoesNotExist\<close> only, so it is uncaught (status 500).
\<close>

datatype error =
    Http404
  | NotFound string
  | BadRequest string
  | ValidationError string
  | TypeError
  | DjangoValidationError


section \<open>Dates\<close>

text \<open>
  A \<^verbatim>\<open>datetime.date\<close>: year, month and day. Python orders dates as the triples
  (year, month, day) and subtracts them through their proleptic Gregorian ordinals
  (\<^verbatim>\<open>date.toordinal\<close>, day 1 is 0001-01-01); \<^verbatim>\<open>(a - b).days\<close> is the
  difference of the two ordinals.
\<close>

record date =
  year :: int
  month :: int
  day :: int

definition is_leap :: "int \<Rightarrow> bool" where
  "is_leap y = (y mod 4 = 0 \<and> (y mod 100 \<noteq> 0 \<or> y mod 400 = 0))"

definition days_before_year :: "int \<Rightarrow> int" where
  "days_before_year y =
     (let y1 = y - 1 in y1 * 365 + y1 div 4 - y1 div 100 + y1 div 400)"

definition DAYS_BEFORE_MONTH :: "int list" where
  "DAYS_BEFORE_MONTH = [-1, 0, 31, 59, 90, 120, 151, 181, 212, 243, 273, 304, 334]"

definition days_before_month :: "int \<Rightarrow> int \<Rightarrow> int" where
  "days_before_month y m =
     DAYS_BEFORE_MONTH ! nat m + (if m > 2 \<and> is_leap y then 1 else 0)"

definition toordinal :: "date \<Rightarrow> int" where
  "toordinal d = days_before_year (year d) + days_before_month (year d) (month d) + day d"

definition date_le :: "date \<Rightarrow> date \<Rightarrow> bool" where
  "date_le a b =
     (year a < year b \<or>
      (year a = year b \<and> (month a < month b \<or> (month a = month b \<and> day a \<le> day b))))"

definition date_gt :: "date \<Rightarrow> date \<Rightarrow> bool" where
  "date_gt a b =
     (year a > year b \<or>
      (year a = year b \<and> (month a > month b \<or> (month a = month b \<and> day a > day b))))"

definition days_between :: "date \<Rightarrow> date \<Rightarrow> int" where
  "days_between a b = toordinal a - toordinal b"

section \<open>Academic years (core/models.py, class AcademicYear)\<close>

text \<open>
  The fields of the model. The two date columns are not nullable, so a stored row has
  both; an instance in memory may still hold \<^verbatim>\<open>None\<close>, which
  \<^verbatim>\<open>get_duration_in_days\<close> tests for, hence \<open>date option\<close>.
\<close>

record academic_year =
  year_id :: string
  name :: string
  start_date :: "date option"
  end_date :: "date option"
  is_active :: bool

text \<open>
  \<^verbatim>\<open>return (date >= self.start_date) and (date <= self.end_date)\<close>: the second
  comparison runs only when the first holds; a comparison with \<^verbatim>\<open>None\<close> raises.
\<close>

definition is_date_in_range :: "academic_year \<Rightarrow> date \<Rightarrow> error + bool" where
  "is_date_in_range self d =
     (case start_date self of
        None \<Rightarrow> Inl TypeError
      | Some s \<Rightarrow>
          if date_le s d
          then (case end_date self of
                  None \<Rightarrow> Inl TypeError
                | Some e \<Rightarrow> Inr (date_le d e))
          else Inr False)"

text \<open>
  \<^verbatim>\<open>if not self.start_date or not self.end_date: return 0\<close>, then
  \<^verbatim>\<open>(self.end_date - self.start_date).days + 1\<close>. A date object is always true, so
  \<^verbatim>\<open>not\<close> holds exactly for \<^verbatim>\<open>None\<close>.
\<close>

definition get_duration_in_days :: "academic_year \<Rightarrow> int" where
  "get_duration_in_days self =
     (case start_date self of
        None \<Rightarrow> 0
      | Some s \<Rightarrow>
          (case end_date self of
             None \<Rightarrow> 0
           | Some e \<Rightarrow> days_between e s + 1))"

text \<open>
  A stored row: both date columns are filled (\<^verbatim>\<open>models.DateField()\<close> without
  \<^verbatim>\<open>null=True\<close>).
\<close>

definition stored :: "academic_year \<Rightarrow> bool" where
  "stored y = (start_date y \<noteq> None \<and> end_date y \<noteq> None)"

section \<open>Academic-year views (core/views.py, class AcademicYearViewSet)\<close>

text \<open>
  The table \<^verbatim>\<open>AcademicYear.objects\<close> is the list of its rows.
  \<^verbatim>\<open>self.get_object()\<close> looks the row of the URL's \<^verbatim>\<open>pk\<close> up and raises
  \<^verbatim>\<open>Http404\<close> when there is none.
\<close>

definition get_object :: "('a \<Rightarrow> string) \<Rightarrow> 'a list \<Rightarrow> string \<Rightarrow> error + 'a" where
  "get_object key objects pk =
     (case find (\<lambda>r. key r = pk) objects of
        None \<Rightarrow> Inl Http404
      | Some r \<Rightarrow> Inr r)"


text \<open>
  \<^verbatim>\<open>instance.save()\<close>: writes every field of the instance to the row of its primary
  key, and inserts the row when the table has none.
\<close>

definition save :: "academic_year list \<Rightarrow> academic_year \<Rightarrow> academic_year list" where
  "save objects obj =
     (case find (\<lambda>r. year_id r = year_id obj) objects of
        None \<Rightarrow> objects @ [obj]
      | Some _ \<Rightarrow> map (\<lambda>r. if year_id r = year_id obj then obj else r) objects)"


text \<open>
  The list comprehension of \<^verbatim>\<open>for_date\<close>:
  \<^verbatim>\<open>[year for year in AcademicYear.objects.all() if year.is_date_in_range(target_date)]\<close>.
  An exception of \<^verbatim>\<open>is_date_in_range\<close> ends it.
\<close>

fun matching_years :: "academic_year list \<Rightarrow> date \<Rightarrow> error + academic_year list" where
  "matching_years [] d = Inr []"
| "matching_years (y # ys) d =
     (case is_date_in_range y d of
        Inl e \<Rightarrow> Inl e
      | Inr b \<Rightarrow>
          (case matching_years ys d of
             Inl e \<Rightarrow> Inl e
           | Inr ms \<Rightarrow> Inr (if b then y # ms else ms)))"

text \<open>
  \<^verbatim>\<open>for_date\<close> (views.py, lines 88-120). The query parameter \<^verbatim>\<open>date\<close> is absent
  (\<open>None\<close>) or a string; \<^verbatim>\<open>not target_date_str\<close> holds for \<open>None\<close> and for the
  empty string. \<^verbatim>\<open>date.fromisoformat\<close> belongs to Python's library and is a
  parameter here: \<open>None\<close> is its \<^verbatim>\<open>ValueError\<close>. The normal result is the list of
  the matching years, which the serializer writes out.
\<close>

definition for_date ::
    "(string \<Rightarrow> date option) \<Rightarrow> academic_year list \<Rightarrow> string option
      \<Rightarrow> error + academic_year list" where
  "for_date fromisoformat objects target_date_str =
     (case target_date_str of
        None \<Rightarrow> Inl (BadRequest ''Date parameter is required (YYYY-MM-DD).'')
      | Some s \<Rightarrow>
          if s = [] then Inl (BadRequest ''Date parameter is required (YYYY-MM-DD).'')
          else
            (case fromisoformat s of
               None \<Rightarrow> Inl (BadRequest ''Invalid date format. Use YYYY-MM-DD.'')
             | Some target_date \<Rightarrow>
                 (case matching_years objects target_date of
                    Inl e \<Rightarrow> Inl e
                  | Inr ms \<Rightarrow>
                      if ms = []
                      then Inl (NotFound (''No academic year found for date '' @ s @ ''.''))
                      else Inr ms)))"

section \<open>Creating and updating academic years (class AcademicYearSerializer)\<close>

text \<open>
  The validated data of a request: the dictionary \<^verbatim>\<open>data\<close> that
  \<^verbatim>\<open>validate\<close> receives. A field is \<open>None\<close> when the key is not in the
  dictionary. \<^verbatim>\<open>id\<close> and the computed fields are read-only and never in it.
\<close>

record year_data =
  d_name :: "string option"
  d_start_date :: "date option"
  d_end_date :: "date option"
  d_is_active :: "bool option"

text \<open>
  \<^verbatim>\<open>AcademicYearSerializer.validate\<close> (serializers.py, lines 19-26): the comparison
  runs only when both keys are in the data.
\<close>

definition AcademicYearSerializer_validate :: "year_data \<Rightarrow> error + year_data" where
  "AcademicYearSerializer_validate data =
     (case d_start_date data of
        None \<Rightarrow> Inr data
      | Some s \<Rightarrow>
          (case d_end_date data of
             None \<Rightarrow> Inr data
           | Some e \<Rightarrow>
               if date_gt s e
               then Inl (ValidationError ''End date must be after start date'')
               else Inr data))"

text \<open>
  The viewset is a \<^verbatim>\<open>ModelViewSet\<close> with this serializer, so the framework gives it
  \<^verbatim>\<open>create\<close> (POST), \<^verbatim>\<open>update\<close> (PUT) and \<^verbatim>\<open>partial_update\<close>
  (PATCH). Each runs the field checks, then \<^verbatim>\<open>validate\<close>, then writes. Of the
  field checks the model keeps the presence of the required fields; the values are
  taken to be well-formed (a name that is not blank and has at most 100 characters).
  The fields \<^verbatim>\<open>name\<close>, \<^verbatim>\<open>start_date\<close> and \<^verbatim>\<open>end_date\<close> have no default
  and are required by POST and PUT; PATCH requires none. \<^verbatim>\<open>is_active\<close> defaults to
  \<^verbatim>\<open>False\<close> on creation. The new row's id (a fresh \<^verbatim>\<open>uuid4\<close>) is a parameter,
  and the new row is inserted. The framework's \<^verbatim>\<open>update\<close> takes the flag
  \<^verbatim>\<open>partial\<close>, which \<^verbatim>\<open>partial_update\<close> sets; \<open>perform_update\<close> is that
  function with the flag as its first argument: it sets the attributes the data holds
  on the instance and saves it.
\<close>

definition has_required :: "year_data \<Rightarrow> bool" where
  "has_required data =
     (d_name data \<noteq> None \<and> d_start_date data \<noteq> None \<and> d_end_date data \<noteq> None)"

definition set_attrs :: "academic_year \<Rightarrow> year_data \<Rightarrow> academic_year" where
  "set_attrs instance data =
     instance
       \<lparr> name := (case d_name data of None \<Rightarrow> name instance | Some n \<Rightarrow> n),
         start_date := (case d_start_date data of None \<Rightarrow> start_date instance | Some s \<Rightarrow> Some s),
         end_date := (case d_end_date data of None \<Rightarrow> end_date instance | Some e \<Rightarrow> Some e),
         is_active := (case d_is_active data of None \<Rightarrow> is_active instance | Some b \<Rightarrow> b) \<rparr>"

definition create ::
    "academic_year list \<Rightarrow> string \<Rightarrow> year_data
      \<Rightarrow> (error + academic_year) \<times> academic_year list" where
  "create objects new_id data =
     (if \<not> has_required data
      then (Inl (ValidationError ''This field is required.''), objects)
      else
        (case AcademicYearSerializer_validate data of
           Inl e \<Rightarrow> (Inl e, objects)
         | Inr validated \<Rightarrow>
             (let obj = set_attrs
                    \<lparr> year_id = new_id, name = [], start_date = None, end_date = None,
                      is_active = False \<rparr> validated
              in (Inr obj, objects @ [obj]))))"

definition perform_update ::
    "bool \<Rightarrow> academic_year list \<Rightarrow> string \<Rightarrow> year_data
      \<Rightarrow> (error + academic_year) \<times> academic_year list" where
  "perform_update partial objects pk data =
     (case get_object year_id objects pk of
        Inl e \<Rightarrow> (Inl e, objects)
      | Inr instance \<Rightarrow>
          if \<not> partial \<and> \<not> has_required data
          then (Inl (ValidationError ''This field is required.''), objects)
          else
            (case AcademicYearSerializer_validate data of
               Inl e \<Rightarrow> (Inl e, objects)
             | Inr validated \<Rightarrow>
                 (let obj = set_attrs instance validated
                  in (Inr obj, save objects obj))))"

definition update ::
    "academic_year list \<Rightarrow> string \<Rightarrow> year_data
      \<Rightarrow> (error + academic_year) \<times> academic_year list" where
  "update = perform_update False"

definition partial_update ::
    "academic_year list \<Rightarrow> string \<Rightarrow> year_data
      \<Rightarrow> (error + academic_year) \<times> academic_year list" where
  "partial_update = perform_update True"

section \<open>Courses and their prerequisites (core/models.py, class Course)\<close>

text \<open>
  A course row, with the fields the prerequisite operations read: the primary key and
  the \<^verbatim>\<open>code\<close> that the messages print. The many-to-many field
  \<^verbatim>\<open>prerequisites\<close> (to \<^verbatim>\<open>'self'\<close>, not symmetrical) is its own table of rows
  (from course id, to course id): the row \<open>(c, p)\<close> says that \<open>p\<close> is a prerequisite
  of \<open>c\<close>.
\<close>

record course =
  course_id :: string
  code :: string

record course_db =
  courses :: "course list"
  prerequisites :: "(string \<times> string) list"

text \<open>\<^verbatim>\<open>c.prerequisites.all()\<close>: the courses joined to \<open>c\<close> through the relation table.\<close>

definition prerequisites_all :: "course_db \<Rightarrow> course \<Rightarrow> course list" where
  "prerequisites_all db c =
     filter (\<lambda>p. (course_id c, course_id p) \<in> set (prerequisites db)) (courses db)"

text \<open>\<^verbatim>\<open>c.prerequisites.filter(pk=pk).exists()\<close>\<close>

definition prerequisites_exists :: "course_db \<Rightarrow> course \<Rightarrow> string \<Rightarrow> bool" where
  "prerequisites_exists db c pk =
     (filter (\<lambda>p. course_id p = pk) (prerequisites_all db c) \<noteq> [])"

text \<open>
  \<^verbatim>\<open>c.prerequisites.add(p)\<close> inserts the row unless the table has it already;
  \<^verbatim>\<open>c.prerequisites.remove(p)\<close> deletes it.
\<close>

definition prerequisites_add :: "course_db \<Rightarrow> course \<Rightarrow> course \<Rightarrow> course_db" where
  "prerequisites_add db c p =
     (if (course_id c, course_id p) \<in> set (prerequisites db) then db
      else db\<lparr>prerequisites := prerequisites db @ [(course_id c, course_id p)]\<rparr>)"

definition prerequisites_remove :: "course_db \<Rightarrow> course \<Rightarrow> course \<Rightarrow> course_db" where
  "prerequisites_remove db c p =
     db\<lparr>prerequisites := filter (\<lambda>e. e \<noteq> (course_id c, course_id p)) (prerequisites db)\<rparr>"

text \<open>
  The primary key is a \<^verbatim>\<open>UUIDField\<close>; \<open>course_id\<close> holds the key in its canonical
  text. A key that a request carries is a string, which the field's \<^verbatim>\<open>to_python\<close>
  (\<^verbatim>\<open>uuid.UUID\<close> of Python's library) reads: several spellings give one key, and a
  string that is not a UUID raises. \<^verbatim>\<open>to_python\<close> is a parameter here, with
  \<open>None\<close> for the exception.

  \<^verbatim>\<open>Course.objects.get(pk=pk)\<close>: \<open>Inl DjangoValidationError\<close> when \<open>pk\<close> is not
  a UUID, \<open>Inr None\<close> for \<^verbatim>\<open>Course.DoesNotExist\<close>, and the course otherwise.
\<close>

definition objects_get ::
    "(string \<Rightarrow> string option) \<Rightarrow> course_db \<Rightarrow> string \<Rightarrow> error + course option" where
  "objects_get to_python db pk =
     (case to_python pk of
        None \<Rightarrow> Inl DjangoValidationError
      | Some k \<Rightarrow> Inr (find (\<lambda>c. course_id c = k) (courses db)))"

text \<open>
  \<^verbatim>\<open>self.get_object()\<close> of the course views: the framework looks the \<^verbatim>\<open>pk\<close> of
  the URL up and answers \<^verbatim>\<open>Http404\<close> both when no course has the key and when the
  string is not a UUID (its \<^verbatim>\<open>get_object_or_404\<close> catches the field's exception).
\<close>

definition get_course ::
    "(string \<Rightarrow> string option) \<Rightarrow> course_db \<Rightarrow> string \<Rightarrow> error + course" where
  "get_course to_python db pk =
     (case to_python pk of
        None \<Rightarrow> Inl Http404
      | Some k \<Rightarrow> get_object course_id (courses db) k)"

section \<open>Prerequisite views (core/views.py, class CourseViewSet)\<close>

text \<open>
  \<^verbatim>\<open>add_prerequisite\<close> (views.py, lines 227-269). \<^verbatim>\<open>request.data.get('prerequisite_id')\<close>
  is absent (\<open>None\<close>) or a string, and \<^verbatim>\<open>not prerequisite_id\<close> holds for
  \<open>None\<close> and for the empty string. \<^verbatim>\<open>Course.objects.get\<close> is inside
  \<^verbatim>\<open>try ... except Course.DoesNotExist\<close>, so its other exception leaves the view.
  The result is the response (an error, or the detail message of status 200) and the
  database after the request.
\<close>

definition add_prerequisite ::
    "(string \<Rightarrow> string option) \<Rightarrow> course_db \<Rightarrow> string \<Rightarrow> string option
      \<Rightarrow> (error + string) \<times> course_db" where
  "add_prerequisite to_python db pk prerequisite_id =
     (case get_course to_python db pk of
        Inl e \<Rightarrow> (Inl e, db)
      | Inr course \<Rightarrow>
          (case prerequisite_id of
             None \<Rightarrow> (Inl (BadRequest ''prerequisite_id is required''), db)
           | Some pid \<Rightarrow>
               if pid = [] then (Inl (BadRequest ''prerequisite_id is required''), db)
               else
                 (case objects_get to_python db pid of
                    Inl e \<Rightarrow> (Inl e, db)
                  | Inr None \<Rightarrow> (Inl (NotFound ''Prerequisite course not found''), db)
                  | Inr (Some prerequisite) \<Rightarrow>
                      if course_id course = course_id prerequisite
                      then (Inl (BadRequest ''A course cannot be a prerequisite for itself''), db)
                      else if prerequisites_exists db prerequisite (course_id course)
                      then (Inl (BadRequest
                              ''Adding this prerequisite would create a circular dependency''), db)
                      else
                        (Inr (''Added '' @ code prerequisite @ '' as a prerequisite for ''
                                @ code course),
                         prerequisites_add db course prerequisite))))"

text \<open>\<^verbatim>\<open>remove_prerequisite\<close> (views.py, lines 271-306).\<close>

definition remove_prerequisite ::
    "(string \<Rightarrow> string option) \<Rightarrow> course_db \<Rightarrow> string \<Rightarrow> string option
      \<Rightarrow> (error + string) \<times> course_db" where
  "remove_prerequisite to_python db pk prerequisite_id =
     (case get_course to_python db pk of
        Inl e \<Rightarrow> (Inl e, db)
      | Inr course \<Rightarrow>
          (case prerequisite_id of
             None \<Rightarrow> (Inl (BadRequest ''prerequisite_id is required''), db)
           | Some pid \<Rightarrow>
               if pid = [] then (Inl (BadRequest ''prerequisite_id is required''), db)
               else
                 (case objects_get to_python db pid of
                    Inl e \<Rightarrow> (Inl e, db)
                  | Inr None \<Rightarrow> (Inl (NotFound ''Prerequisite course not found''), db)
                  | Inr (Some prerequisite) \<Rightarrow>
                      if \<not> prerequisites_exists db course (course_id prerequisite)
                      then (Inl (BadRequest
                              (code prerequisite @ '' is not a prerequisite for '' @ code course)),
                            db)
                      else
                        (Inr (''Removed '' @ code prerequisite @ '' as a prerequisite for ''
                                @ code course),
                         prerequisites_remove db course prerequisite))))"

section \<open>The serializer's cycle validation (class CourseCreateUpdateSerializer)\<close>

text \<open>
  \<^verbatim>\<open>_check_circular_reference(course, prerequisite, visited)\<close> (serializers.py, lines
  114-136). The set \<^verbatim>\<open>visited\<close> is one object shared by all the recursive calls,
  so the function returns it next to its answer. The \<^verbatim>\<open>for\<close> loop over
  \<^verbatim>\<open>prerequisite.prerequisites.all()\<close> is the second function. Membership
  \<^verbatim>\<open>course in ...\<close> compares primary keys.
\<close>

function check_circular_reference ::
    "course_db \<Rightarrow> course \<Rightarrow> course \<Rightarrow> string set \<Rightarrow> bool \<times> string set"
  and check_prereqs_of_prereq ::
    "course_db \<Rightarrow> course \<Rightarrow> course list \<Rightarrow> string set \<Rightarrow> bool \<times> string set"
where
  "check_circular_reference db course prerequisite visited =
     (if course_id course \<in> visited then (False, visited)
      else
        (let visited1 = insert (course_id course) visited in
           if course_id course \<in> set (map course_id (prerequisites_all db prerequisite))
           then (True, visited1)
           else check_prereqs_of_prereq db course (prerequisites_all db prerequisite) visited1))"
| "check_prereqs_of_prereq db course [] visited = (False, visited)"
| "check_prereqs_of_prereq db course (prereq_of_prereq # rest) visited =
     (let (found, visited1) = check_circular_reference db course prereq_of_prereq visited in
        if found then (True, visited1)
        else check_prereqs_of_prereq db course rest visited1)"
  by pat_completeness auto
termination
proof (relation "inv_image (less_than <*lex*> less_than)
     (\<lambda>x. case x of
        Inl (db, c, p, V) \<Rightarrow> (if course_id c \<in> V then 0 else (1::nat), 0::nat)
      | Inr (db, c, l, V) \<Rightarrow> (if course_id c \<in> V then 0 else 1, Suc (length l)))",
    goal_cases)
  case 1
  show ?case by auto
next
  case 2
  then show ?case by auto
next
  case 3
  show ?case by auto
next
  case (4 db course prereq_of_prereq rest visited x found visited1)
  then show ?case
    by (cases "course_id course \<in> visited")
       (auto simp: check_circular_reference.psimps)
qed

text \<open>
  The loop of \<^verbatim>\<open>validate\<close> (serializers.py, lines 105-110): every call of the check
  starts with \<^verbatim>\<open>visited=None\<close>, a fresh empty set.
\<close>

fun check_each :: "course_db \<Rightarrow> course \<Rightarrow> course list \<Rightarrow> error + unit" where
  "check_each db instance [] = Inr ()"
| "check_each db instance (prereq # rest) =
     (if fst (check_circular_reference db instance prereq {})
      then Inl (ValidationError (''Circular reference detected with course '' @ code prereq))
      else check_each db instance rest)"

text \<open>
  \<^verbatim>\<open>CourseCreateUpdateSerializer.validate\<close> (serializers.py, lines 91-112).
  \<open>instance\<close> is \<^verbatim>\<open>self.instance\<close> (\<open>None\<close> when a course is created) and
  \<open>data_prerequisites\<close> is \<^verbatim>\<open>data['prerequisites']\<close>, the courses the request
  names (\<open>None\<close> when the key is not in the data). The result \<open>Inr ()\<close> stands for
  \<^verbatim>\<open>return data\<close>.
\<close>

definition CourseCreateUpdateSerializer_validate ::
    "course_db \<Rightarrow> course option \<Rightarrow> course list option \<Rightarrow> error + unit" where
  "CourseCreateUpdateSerializer_validate db instance data_prerequisites =
     (case instance of
        None \<Rightarrow> Inr ()
      | Some self_instance \<Rightarrow>
          (case data_prerequisites of
             None \<Rightarrow> Inr ()
           | Some prereqs \<Rightarrow>
               if course_id self_instance \<in> set (map course_id prereqs)
               then Inl (ValidationError ''A course cannot be a prerequisite for itself'')
               else check_each db self_instance prereqs))"

section \<open>Example data\<close>

text \<open>
  The two academic years of the specification's scenario, a \<^verbatim>\<open>fromisoformat\<close> that
  reads three dates, and the three courses A, B, C where B requires A and C requires B,
  with their keys.
\<close>

definition year_Y1 :: academic_year where
  "year_Y1 =
     \<lparr> year_id = ''y1'', name = ''2023/2024'',
       start_date = Some \<lparr>year = 2023, month = 9, day = 1\<rparr>,
       end_date = Some \<lparr>year = 2024, month = 6, day = 30\<rparr>,
       is_active = True \<rparr>"

definition year_Y2 :: academic_year where
  "year_Y2 =
     \<lparr> year_id = ''y2'', name = ''2024/2025'',
       start_date = Some \<lparr>year = 2024, month = 9, day = 1\<rparr>,
       end_date = Some \<lparr>year = 2025, month = 6, day = 30\<rparr>,
       is_active = False \<rparr>"

definition fromisoformat_example :: "string \<Rightarrow> date option" where
  "fromisoformat_example s =
     (if s = ''2024-06-30'' then Some \<lparr>year = 2024, month = 6, day = 30\<rparr>
      else if s = ''2024-07-15'' then Some \<lparr>year = 2024, month = 7, day = 15\<rparr>
      else if s = ''2023-08-31'' then Some \<lparr>year = 2023, month = 8, day = 31\<rparr>
      else None)"

definition uuid_a :: string where
  "uuid_a = ''00000000-0000-0000-0000-00000000000a''"

definition uuid_b :: string where
  "uuid_b = ''00000000-0000-0000-0000-00000000000b''"

definition uuid_c :: string where
  "uuid_c = ''00000000-0000-0000-0000-00000000000c''"

text \<open>A well-formed key that no course has, and the key of A written in capitals.\<close>

definition uuid_f :: string where
  "uuid_f = ''00000000-0000-0000-0000-00000000000f''"

definition uuid_a_capitals :: string where
  "uuid_a_capitals = ''00000000-0000-0000-0000-00000000000A''"

text \<open>
  A \<^verbatim>\<open>to_python\<close> that reads these five strings; every other string, such as
  \<open>''z''\<close>, is not a UUID for it.
\<close>

definition to_python_example :: "string \<Rightarrow> string option" where
  "to_python_example s =
     (if s = uuid_a \<or> s = uuid_b \<or> s = uuid_c \<or> s = uuid_f then Some s
      else if s = uuid_a_capitals then Some uuid_a
      else None)"

definition course_A :: course where
  "course_A = \<lparr>course_id = uuid_a, code = ''A''\<rparr>"

definition course_B :: course where
  "course_B = \<lparr>course_id = uuid_b, code = ''B''\<rparr>"

definition course_C :: course where
  "course_C = \<lparr>course_id = uuid_c, code = ''C''\<rparr>"

definition abc_db :: course_db where
  "abc_db =
     \<lparr> courses = [course_A, course_B, course_C],
       prerequisites = [(uuid_b, uuid_a), (uuid_c, uuid_b)] \<rparr>"

text \<open>A database whose relation table already holds a cycle: A requires B, B requires A.\<close>

definition cyclic_db :: course_db where
  "cyclic_db =
     \<lparr> courses = [course_A, course_B, course_C],
       prerequisites = [(uuid_a, uuid_b), (uuid_b, uuid_a)] \<rparr>"

text \<open>
  Request data for an academic year: the year 2024/2025 in full, the same with the two
  dates exchanged, and a partial update that carries a start date only.
\<close>

definition year_data_ok :: year_data where
  "year_data_ok =
     \<lparr> d_name = Some ''2024/2025'',
       d_start_date = Some \<lparr>year = 2024, month = 9, day = 1\<rparr>,
       d_end_date = Some \<lparr>year = 2025, month = 6, day = 30\<rparr>,
       d_is_active = None \<rparr>"

definition year_data_bad :: year_data where
  "year_data_bad =
     \<lparr> d_name = Some ''2024/2025'',
       d_start_date = Some \<lparr>year = 2025, month = 6, day = 30\<rparr>,
       d_end_date = Some \<lparr>year = 2024, month = 9, day = 1\<rparr>,
       d_is_active = None \<rparr>"

definition year_data_patch :: year_data where
  "year_data_patch =
     \<lparr> d_name = None,
       d_start_date = Some \<lparr>year = 2025, month = 1, day = 1\<rparr>,
       d_end_date = None,
       d_is_active = None \<rparr>"

section \<open>Lookup lemmas\<close>

lemma find_key_Some:
  "find (\<lambda>r. key r = pk) xs = Some x \<Longrightarrow> x \<in> set xs \<and> key x = pk"
  by (induction xs) (auto split: if_splits)

lemma find_key_None:
  "find (\<lambda>r. key r = pk) xs = None \<longleftrightarrow> pk \<notin> set (map key xs)"
  by (induction xs) auto


section \<open>Duration of an academic year\<close>

text \<open>
  C7. With both bounds present, \<^verbatim>\<open>get_duration_in_days\<close> is the number of days from
  the start to the end, both counted: the ordinal of the end minus the ordinal of the
  start, plus one. With the start or the end absent it is 0.
\<close>

theorem get_duration_in_days_spec:
  "(start_date y = Some s \<and> end_date y = Some e \<longrightarrow>
      get_duration_in_days y = toordinal e - toordinal s + 1) \<and>
   (start_date y = None \<or> end_date y = None \<longrightarrow> get_duration_in_days y = 0)"
  by (auto simp: get_duration_in_days_def days_between_def split: option.splits)

text \<open>From 2024-01-01 to 2024-01-31 the duration is 31; without an end date it is 0.\<close>

theorem get_duration_in_days_spec_witness:
  "get_duration_in_days
     \<lparr> year_id = ''y'', name = ''January'',
       start_date = Some \<lparr>year = 2024, month = 1, day = 1\<rparr>,
       end_date = Some \<lparr>year = 2024, month = 1, day = 31\<rparr>, is_active = True \<rparr> = 31 \<and>
   get_duration_in_days
     \<lparr> year_id = ''y'', name = ''January'',
       start_date = Some \<lparr>year = 2024, month = 1, day = 1\<rparr>,
       end_date = None, is_active = True \<rparr> = 0"
  using get_duration_in_days_spec
          [of "\<lparr> year_id = ''y'', name = ''January'',
                 start_date = Some \<lparr>year = 2024, month = 1, day = 1\<rparr>,
                 end_date = Some \<lparr>year = 2024, month = 1, day = 31\<rparr>, is_active = True \<rparr>"
              "\<lparr>year = 2024, month = 1, day = 1\<rparr>" "\<lparr>year = 2024, month = 1, day = 31\<rparr>"]
        get_duration_in_days_spec
          [of "\<lparr> year_id = ''y'', name = ''January'',
                 start_date = Some \<lparr>year = 2024, month = 1, day = 1\<rparr>,
                 end_date = None, is_active = True \<rparr>"]
  by (simp add: toordinal_def days_before_year_def days_before_month_def
        DAYS_BEFORE_MONTH_def is_leap_def)

section \<open>Academic years containing a date\<close>

lemma matching_years_stored:
  "list_all stored objects \<Longrightarrow>
   matching_years objects d =
     Inr (filter (\<lambda>Y. \<exists>a b. start_date Y = Some a \<and> end_date Y = Some b \<and>
                          date_le a d \<and> date_le d b) objects)"
proof (induction objects)
  case Nil
  show ?case by simp
next
  case (Cons y ys)
  then obtain a b where ab: "start_date y = Some a" "end_date y = Some b"
    by (auto simp: stored_def)
  from Cons have "matching_years ys d =
     Inr (filter (\<lambda>Y. \<exists>a b. start_date Y = Some a \<and> end_date Y = Some b \<and>
                          date_le a d \<and> date_le d b) ys)" by simp
  then show ?case using ab by (simp add: is_date_in_range_def)
qed

text \<open>
  C3, as the code has it. For a table of stored rows and a \<^verbatim>\<open>date\<close> parameter that
  parses to \<open>d\<close>, \<^verbatim>\<open>for_date\<close> finds exactly the years \<open>Y\<close> with
  \<open>start_date Y \<le> d \<le> end_date Y\<close>, both bounds included. When there is at least one
  it answers with them; when there is none it answers 404 with the detail
  "No academic year found for date ...", not with an empty list.
\<close>

theorem for_date_spec:
  assumes "list_all stored objects" and "s \<noteq> []" and "fromisoformat s = Some d"
  shows "for_date fromisoformat objects (Some s) =
     (let ms = filter (\<lambda>Y. \<exists>a b. start_date Y = Some a \<and> end_date Y = Some b \<and>
                             date_le a d \<and> date_le d b) objects
      in if ms = [] then Inl (NotFound (''No academic year found for date '' @ s @ ''.''))
         else Inr ms)"
  using assms by (simp add: for_date_def matching_years_stored Let_def)

text \<open>The last day of Y1 is in Y1 and not in Y2.\<close>

theorem for_date_spec_witness:
  "for_date fromisoformat_example [year_Y1, year_Y2] (Some ''2024-06-30'') = Inr [year_Y1]"
proof -
  have st: "list_all stored [year_Y1, year_Y2]"
    by (simp add: stored_def year_Y1_def year_Y2_def)
  have ne: "''2024-06-30'' \<noteq> []" by simp
  have p: "fromisoformat_example ''2024-06-30'' = Some \<lparr>year = 2024, month = 6, day = 30\<rparr>"
    by (simp add: fromisoformat_example_def)
  show ?thesis
    using for_date_spec [where fromisoformat = fromisoformat_example
        and objects = "[year_Y1, year_Y2]" and s = "''2024-06-30''"
        and d = "\<lparr>year = 2024, month = 6, day = 30\<rparr>"] st ne p
    by (simp add: year_Y1_def year_Y2_def date_le_def)
qed

text \<open>
  A date between the two years: the answer is the 404 response, and it is not the empty
  list.
\<close>

theorem for_date_empty_counterexample:
  "for_date fromisoformat_example [year_Y1, year_Y2] (Some ''2024-07-15'') =
     Inl (NotFound ''No academic year found for date 2024-07-15.'') \<and>
   for_date fromisoformat_example [year_Y1, year_Y2] (Some ''2024-07-15'') \<noteq> Inr []"
  by (simp add: for_date_def fromisoformat_example_def is_date_in_range_def
        year_Y1_def year_Y2_def date_le_def)

section \<open>Activating an academic year\<close>





section \<open>Start and end of an accepted academic year\<close>

lemma date_gt_iff_not_le: "date_gt a b \<longleftrightarrow> \<not> date_le a b"
  unfolding date_le_def date_gt_def by auto

lemma validate_accepts:
  "AcademicYearSerializer_validate data = Inr v \<Longrightarrow>
   d_start_date data = Some s \<Longrightarrow> d_end_date data = Some e \<Longrightarrow> v = data \<and> date_le s e"
  by (auto simp: AcademicYearSerializer_validate_def date_gt_iff_not_le split: if_splits)

lemma validate_rejects:
  "d_start_date data = Some s \<Longrightarrow> d_end_date data = Some e \<Longrightarrow> date_gt s e \<Longrightarrow>
   AcademicYearSerializer_validate data =
     Inl (ValidationError ''End date must be after start date'')"
  by (simp add: AcademicYearSerializer_validate_def)

lemma create_accepted:
  assumes "create objects new_id data = (Inr obj, objects')"
  shows "\<exists>s e. start_date obj = Some s \<and> end_date obj = Some e \<and> date_le s e"
proof -
  from assms have req: "has_required data"
    by (auto simp: create_def split: if_splits)
  then obtain s e where se: "d_start_date data = Some s" "d_end_date data = Some e"
    by (auto simp: has_required_def)
  from assms req obtain v where v: "AcademicYearSerializer_validate data = Inr v"
    by (auto simp: create_def split: sum.splits)
  from validate_accepts [OF v se] have "v = data" "date_le s e" by auto
  with assms req v se show ?thesis
    by (auto simp: create_def Let_def set_attrs_def)
qed

lemma perform_update_accepted:
  assumes "perform_update partial objects pk data = (Inr obj, objects')"
    and "d_start_date data = Some s" and "d_end_date data = Some e"
  shows "start_date obj = Some s \<and> end_date obj = Some e \<and> date_le s e"
proof -
  from assms(1) obtain v where v: "AcademicYearSerializer_validate data = Inr v"
    by (auto simp: perform_update_def split: sum.splits if_splits)
  from validate_accepts [OF v assms(2,3)] have "v = data" "date_le s e" by auto
  with assms v show ?thesis
    by (auto simp: perform_update_def Let_def set_attrs_def split: sum.splits if_splits)
qed

lemma update_required:
  "update objects pk data = (Inr obj, objects') \<Longrightarrow> has_required data"
  by (auto simp: update_def perform_update_def split: sum.splits if_splits)

text \<open>
  C8, as the code has it. A year that \<^verbatim>\<open>create\<close> or a full \<^verbatim>\<open>update\<close> accepts
  has both dates and its start is not after its end; so has a year that a
  \<^verbatim>\<open>partial_update\<close> accepts when the request carries both dates. A request that
  carries both dates with the start after the end is rejected with a validation error
  by all three, and the table stays as it was.
\<close>

theorem accepted_year_start_le_end:
  "(create objects new_id data = (Inr obj, objects') \<longrightarrow>
      (\<exists>s e. start_date obj = Some s \<and> end_date obj = Some e \<and> date_le s e)) \<and>
   (update objects pk data = (Inr obj, objects') \<longrightarrow>
      (\<exists>s e. start_date obj = Some s \<and> end_date obj = Some e \<and> date_le s e)) \<and>
   (partial_update objects pk data = (Inr obj, objects') \<and>
    d_start_date data = Some s \<and> d_end_date data = Some e \<longrightarrow>
      start_date obj = Some s \<and> end_date obj = Some e \<and> date_le s e) \<and>
   (d_start_date data = Some s \<and> d_end_date data = Some e \<and> date_gt s e \<longrightarrow>
      AcademicYearSerializer_validate data =
        Inl (ValidationError ''End date must be after start date'') \<and>
      (\<exists>msg. create objects new_id data = (Inl (ValidationError msg), objects)) \<and>
      (\<forall>r. get_object year_id objects pk = Inr r \<longrightarrow>
         (\<exists>msg. update objects pk data = (Inl (ValidationError msg), objects)) \<and>
         partial_update objects pk data =
           (Inl (ValidationError ''End date must be after start date''), objects)))"
proof (intro conjI impI)
  assume "create objects new_id data = (Inr obj, objects')"
  then show "\<exists>s e. start_date obj = Some s \<and> end_date obj = Some e \<and> date_le s e"
    by (rule create_accepted)
next
  assume u: "update objects pk data = (Inr obj, objects')"
  from update_required [OF u] obtain s e where
    se: "d_start_date data = Some s" "d_end_date data = Some e"
    by (auto simp: has_required_def)
  from u have "perform_update False objects pk data = (Inr obj, objects')"
    by (simp add: update_def)
  from perform_update_accepted [OF this se]
  show "\<exists>s e. start_date obj = Some s \<and> end_date obj = Some e \<and> date_le s e" by blast
next
  assume a: "partial_update objects pk data = (Inr obj, objects') \<and>
    d_start_date data = Some s \<and> d_end_date data = Some e"
  then have "perform_update True objects pk data = (Inr obj, objects')"
    by (simp add: partial_update_def)
  from perform_update_accepted [OF this] a
  show "start_date obj = Some s" "end_date obj = Some e" "date_le s e" by auto
next
  assume a: "d_start_date data = Some s \<and> d_end_date data = Some e \<and> date_gt s e"
  then show v: "AcademicYearSerializer_validate data =
        Inl (ValidationError ''End date must be after start date'')"
    using validate_rejects by blast
  show "\<exists>msg. create objects new_id data = (Inl (ValidationError msg), objects)"
    using v by (simp add: create_def)
  show "\<forall>r. get_object year_id objects pk = Inr r \<longrightarrow>
         (\<exists>msg. update objects pk data = (Inl (ValidationError msg), objects)) \<and>
         partial_update objects pk data =
           (Inl (ValidationError ''End date must be after start date''), objects)"
    using v by (auto simp: update_def partial_update_def perform_update_def)
qed

text \<open>
  The year 2024/2025 is created, and written over Y1 by a full and by a partial update;
  the same request with its dates exchanged is rejected.
\<close>

theorem accepted_year_start_le_end_witness:
  "create [year_Y1] ''y2'' year_data_ok = (Inr year_Y2, [year_Y1, year_Y2]) \<and>
   (\<exists>s e. start_date year_Y2 = Some s \<and> end_date year_Y2 = Some e \<and> date_le s e) \<and>
   fst (update [year_Y1] ''y1'' year_data_ok) =
     Inr (year_Y2\<lparr>year_id := ''y1'', is_active := True\<rparr>) \<and>
   fst (partial_update [year_Y1] ''y1'' year_data_ok) =
     Inr (year_Y2\<lparr>year_id := ''y1'', is_active := True\<rparr>) \<and>
   date_le \<lparr>year = 2024, month = 9, day = 1\<rparr> \<lparr>year = 2025, month = 6, day = 30\<rparr> \<and>
   (\<exists>msg. create [year_Y1] ''y2'' year_data_bad = (Inl (ValidationError msg), [year_Y1])) \<and>
   (\<exists>msg. update [year_Y1] ''y1'' year_data_bad = (Inl (ValidationError msg), [year_Y1])) \<and>
   partial_update [year_Y1] ''y1'' year_data_bad =
     (Inl (ValidationError ''End date must be after start date''), [year_Y1])"
proof -
  let ?obj = "year_Y2\<lparr>year_id := ''y1'', is_active := True\<rparr>"
  let ?s = "\<lparr>year = 2024, month = 9, day = 1\<rparr>"
  let ?e = "\<lparr>year = 2025, month = 6, day = 30\<rparr>"
  have c_ok: "create [year_Y1] ''y2'' year_data_ok = (Inr year_Y2, [year_Y1, year_Y2])"
    by (simp add: create_def has_required_def AcademicYearSerializer_validate_def date_gt_def
        set_attrs_def save_def year_Y1_def year_Y2_def year_data_ok_def Let_def)
  have u_ok: "update [year_Y1] ''y1'' year_data_ok = (Inr ?obj, [?obj])"
    by (simp add: update_def perform_update_def get_object_def has_required_def
        AcademicYearSerializer_validate_def date_gt_def
        set_attrs_def save_def year_Y1_def year_Y2_def year_data_ok_def Let_def)
  have p_ok: "partial_update [year_Y1] ''y1'' year_data_ok = (Inr ?obj, [?obj])"
    by (simp add: partial_update_def perform_update_def get_object_def has_required_def
        AcademicYearSerializer_validate_def date_gt_def
        set_attrs_def save_def year_Y1_def year_Y2_def year_data_ok_def Let_def)
  have ok: "d_start_date year_data_ok = Some ?s \<and> d_end_date year_data_ok = Some ?e"
    by (simp add: year_data_ok_def)
  have bad: "d_start_date year_data_bad = Some ?e \<and> d_end_date year_data_bad = Some ?s \<and>
      date_gt ?e ?s"
    by (simp add: year_data_bad_def date_gt_def)
  have g: "get_object year_id [year_Y1] ''y1'' = Inr year_Y1"
    by (simp add: get_object_def year_Y1_def)
  have created: "\<exists>s e. start_date year_Y2 = Some s \<and> end_date year_Y2 = Some e \<and> date_le s e"
    using accepted_year_start_le_end
            [where objects = "[year_Y1]" and new_id = "''y2''" and data = year_data_ok
               and obj = year_Y2 and objects' = "[year_Y1, year_Y2]"] c_ok
    by blast
  have updated: "date_le ?s ?e"
    using accepted_year_start_le_end
            [where objects = "[year_Y1]" and pk = "''y1''" and data = year_data_ok
               and obj = ?obj and objects' = "[?obj]" and s = ?s and e = ?e] u_ok p_ok ok
    by blast
  have rejected:
    "(\<exists>msg. create [year_Y1] ''y2'' year_data_bad = (Inl (ValidationError msg), [year_Y1])) \<and>
     (\<exists>msg. update [year_Y1] ''y1'' year_data_bad = (Inl (ValidationError msg), [year_Y1])) \<and>
     partial_update [year_Y1] ''y1'' year_data_bad =
       (Inl (ValidationError ''End date must be after start date''), [year_Y1])"
    using accepted_year_start_le_end
            [where objects = "[year_Y1]" and new_id = "''y2''" and pk = "''y1''"
               and data = year_data_bad and s = ?e and e = ?s] bad g
    by blast
  show ?thesis
    using c_ok u_ok p_ok created updated rejected by simp
qed

text \<open>
  A partial update that carries only a start date is not compared with the stored end
  date: Y1 (ending 2024-06-30) accepts the start date 2025-01-01.
\<close>

theorem partial_update_start_after_end_counterexample:
  "partial_update [year_Y1] ''y1'' year_data_patch =
     (Inr (year_Y1\<lparr>start_date := Some \<lparr>year = 2025, month = 1, day = 1\<rparr>\<rparr>),
      [year_Y1\<lparr>start_date := Some \<lparr>year = 2025, month = 1, day = 1\<rparr>\<rparr>]) \<and>
   end_date (year_Y1\<lparr>start_date := Some \<lparr>year = 2025, month = 1, day = 1\<rparr>\<rparr>) =
     Some \<lparr>year = 2024, month = 6, day = 30\<rparr> \<and>
   \<not> date_le \<lparr>year = 2025, month = 1, day = 1\<rparr> \<lparr>year = 2024, month = 6, day = 30\<rparr>"
  by (simp add: partial_update_def perform_update_def get_object_def
      AcademicYearSerializer_validate_def set_attrs_def save_def year_Y1_def
      year_data_patch_def date_le_def Let_def)

section \<open>Looking courses up\<close>

lemma get_course_Inr:
  assumes "get_course to_python db pk = Inr C"
  shows "C \<in> set (courses db) \<and> to_python pk = Some (course_id C)"
proof -
  from assms obtain k where k: "to_python pk = Some k"
    and g: "get_object course_id (courses db) k = Inr C"
    by (auto simp: get_course_def split: option.splits)
  from g have "find (\<lambda>c. course_id c = k) (courses db) = Some C"
    by (auto simp: get_object_def split: option.splits)
  with find_key_Some [of course_id k "courses db" C] k show ?thesis by simp
qed

lemma objects_get_Some:
  assumes "objects_get to_python db pid = Inr (Some P)"
  shows "P \<in> set (courses db) \<and> to_python pid = Some (course_id P)"
proof -
  from assms obtain k where k: "to_python pid = Some k"
    and g: "find (\<lambda>c. course_id c = k) (courses db) = Some P"
    by (auto simp: objects_get_def split: option.splits)
  with find_key_Some [of course_id k "courses db" P] show ?thesis by simp
qed

lemma objects_get_member:
  assumes "C \<in> set (courses db)" and "to_python s = Some (course_id C)"
  shows "\<exists>P. objects_get to_python db s = Inr (Some P) \<and> course_id P = course_id C"
proof -
  from assms(1) have "find (\<lambda>c. course_id c = course_id C) (courses db) \<noteq> None"
    using find_key_None [of course_id "course_id C" "courses db"] by simp
  then obtain P where P: "find (\<lambda>c. course_id c = course_id C) (courses db) = Some P"
    by auto
  with find_key_Some [of course_id "course_id C" "courses db" P] assms(2)
  show ?thesis by (simp add: objects_get_def)
qed

lemma prerequisites_exists_iff:
  assumes "P \<in> set (courses db)"
  shows "prerequisites_exists db c (course_id P) \<longleftrightarrow>
         (course_id c, course_id P) \<in> set (prerequisites db)"
proof
  assume "prerequisites_exists db c (course_id P)"
  then show "(course_id c, course_id P) \<in> set (prerequisites db)"
    by (auto simp: prerequisites_exists_def prerequisites_all_def filter_empty_conv)
next
  assume "(course_id c, course_id P) \<in> set (prerequisites db)"
  with assms show "prerequisites_exists db c (course_id P)"
    by (auto simp: prerequisites_exists_def prerequisites_all_def filter_empty_conv)
qed

lemmas uuid_defs = uuid_a_def uuid_b_def uuid_c_def uuid_f_def uuid_a_capitals_def

lemma uuid_not_empty:
  "uuid_a \<noteq> []" "uuid_b \<noteq> []" "uuid_c \<noteq> []" "uuid_f \<noteq> []" "uuid_a_capitals \<noteq> []"
  by (simp_all add: uuid_defs)

lemma to_python_example_simps:
  "to_python_example uuid_a = Some uuid_a" "to_python_example uuid_b = Some uuid_b"
  "to_python_example uuid_c = Some uuid_c" "to_python_example uuid_f = Some uuid_f"
  "to_python_example uuid_a_capitals = Some uuid_a" "to_python_example ''z'' = None"
  by (simp_all add: to_python_example_def uuid_defs)

lemma abc_lookup:
  "get_course to_python_example abc_db uuid_a = Inr course_A"
  "get_course to_python_example abc_db uuid_b = Inr course_B"
  "get_course to_python_example abc_db uuid_c = Inr course_C"
  "get_course to_python_example abc_db uuid_f = Inl Http404"
  "get_course to_python_example abc_db ''z'' = Inl Http404"
  "objects_get to_python_example abc_db uuid_a = Inr (Some course_A)"
  "objects_get to_python_example abc_db uuid_b = Inr (Some course_B)"
  "objects_get to_python_example abc_db uuid_c = Inr (Some course_C)"
  "objects_get to_python_example abc_db uuid_a_capitals = Inr (Some course_A)"
  "objects_get to_python_example abc_db uuid_f = Inr None"
  "objects_get to_python_example abc_db ''z'' = Inl DjangoValidationError"
  by (simp_all add: get_course_def get_object_def objects_get_def to_python_example_def
      abc_db_def course_A_def course_B_def course_C_def uuid_defs)

section \<open>A course as its own prerequisite\<close>

text \<open>
  C5. For a course \<open>C\<close> of the database (the course of the URL), the request to add
  \<open>C\<close> as a prerequisite of \<open>C\<close>, its id given as any string that is not empty and
  reads as the key of \<open>C\<close>, is answered with status 400, "A course cannot be a
  prerequisite for itself", and the database is as before. The serializer rejects an
  update of \<open>C\<close> whose prerequisites contain \<open>C\<close> with the same message.
\<close>

theorem add_prerequisite_self:
  assumes "get_course to_python db pk = Inr C"
    and "s \<noteq> []" and "to_python s = Some (course_id C)"
  shows "add_prerequisite to_python db pk (Some s) =
           (Inl (BadRequest ''A course cannot be a prerequisite for itself''), db) \<and>
         (course_id C \<in> set (map course_id prereqs) \<longrightarrow>
            CourseCreateUpdateSerializer_validate db (Some C) (Some prereqs) =
              Inl (ValidationError ''A course cannot be a prerequisite for itself'')) \<and>
         CourseCreateUpdateSerializer_validate db (Some C) (Some [C]) =
              Inl (ValidationError ''A course cannot be a prerequisite for itself'')"
proof -
  from get_course_Inr [OF assms(1)] have C: "C \<in> set (courses db)" by simp
  from objects_get_member [of C db to_python s] C assms(3) obtain P where
    P: "objects_get to_python db s = Inr (Some P)" "course_id P = course_id C" by blast
  show ?thesis
    using assms P
    by (simp add: add_prerequisite_def CourseCreateUpdateSerializer_validate_def)
qed

text \<open>The course A with its own key, in canonical form and in capitals.\<close>

theorem add_prerequisite_self_witness:
  "add_prerequisite to_python_example abc_db uuid_a (Some uuid_a) =
     (Inl (BadRequest ''A course cannot be a prerequisite for itself''), abc_db) \<and>
   add_prerequisite to_python_example abc_db uuid_a (Some uuid_a_capitals) =
     (Inl (BadRequest ''A course cannot be a prerequisite for itself''), abc_db) \<and>
   CourseCreateUpdateSerializer_validate abc_db (Some course_A) (Some [course_B, course_A]) =
     Inl (ValidationError ''A course cannot be a prerequisite for itself'') \<and>
   CourseCreateUpdateSerializer_validate abc_db (Some course_A) (Some [course_A]) =
     Inl (ValidationError ''A course cannot be a prerequisite for itself'')"
proof -
  have g: "get_course to_python_example abc_db uuid_a = Inr course_A"
    by (rule abc_lookup)
  have n: "uuid_a \<noteq> []" and nc: "uuid_a_capitals \<noteq> []" by (rule uuid_not_empty)+
  have t: "to_python_example uuid_a = Some (course_id course_A)"
    and tc: "to_python_example uuid_a_capitals = Some (course_id course_A)"
    by (simp_all add: to_python_example_simps course_A_def)
  have m: "course_id course_A \<in> set (map course_id [course_B, course_A])" by simp
  show ?thesis
    using add_prerequisite_self [OF g n t, of "[course_B, course_A]"]
      add_prerequisite_self [OF g nc tc, of "[]"] m
    by simp
qed

section \<open>Removing a prerequisite\<close>

text \<open>
  C9. For a course \<open>C\<close> (the course of the URL) and a course \<open>P\<close> (the one the request
  names), \<^verbatim>\<open>remove_prerequisite\<close> answers 400 "P is not a prerequisite for C" when
  the relation table has no row \<open>(C, P)\<close>, and the database is as before; when the row
  is there the answer is the success message, the courses are as before and the
  relation table is the old one without the row \<open>(C, P)\<close>, every other row kept.
\<close>

theorem remove_prerequisite_spec:
  assumes "get_course to_python db pk = Inr C"
    and "pid \<noteq> []" and "objects_get to_python db pid = Inr (Some P)"
  shows "((course_id C, course_id P) \<notin> set (prerequisites db) \<longrightarrow>
            remove_prerequisite to_python db pk (Some pid) =
              (Inl (BadRequest (code P @ '' is not a prerequisite for '' @ code C)), db)) \<and>
         ((course_id C, course_id P) \<in> set (prerequisites db) \<longrightarrow>
            fst (remove_prerequisite to_python db pk (Some pid)) =
              Inr (''Removed '' @ code P @ '' as a prerequisite for '' @ code C) \<and>
            courses (snd (remove_prerequisite to_python db pk (Some pid))) = courses db \<and>
            prerequisites (snd (remove_prerequisite to_python db pk (Some pid))) =
              filter (\<lambda>e. e \<noteq> (course_id C, course_id P)) (prerequisites db) \<and>
            set (prerequisites (snd (remove_prerequisite to_python db pk (Some pid)))) =
              set (prerequisites db) - {(course_id C, course_id P)})"
proof -
  from objects_get_Some [OF assms(3)] have P: "P \<in> set (courses db)" by simp
  have ex: "prerequisites_exists db C (course_id P) \<longleftrightarrow>
      (course_id C, course_id P) \<in> set (prerequisites db)"
    using prerequisites_exists_iff [OF P] .
  show ?thesis
    using assms ex
    by (auto simp: remove_prerequisite_def prerequisites_remove_def)
qed

text \<open>B is not a prerequisite of A; A is a prerequisite of B and is removed.\<close>

theorem remove_prerequisite_spec_witness:
  "remove_prerequisite to_python_example abc_db uuid_a (Some uuid_b) =
     (Inl (BadRequest ''B is not a prerequisite for A''), abc_db) \<and>
   fst (remove_prerequisite to_python_example abc_db uuid_b (Some uuid_a)) =
     Inr ''Removed A as a prerequisite for B'' \<and>
   prerequisites (snd (remove_prerequisite to_python_example abc_db uuid_b (Some uuid_a))) =
     [(uuid_c, uuid_b)]"
proof -
  have ga: "get_course to_python_example abc_db uuid_a = Inr course_A"
    and gb: "get_course to_python_example abc_db uuid_b = Inr course_B"
    and oa: "objects_get to_python_example abc_db uuid_a = Inr (Some course_A)"
    and ob: "objects_get to_python_example abc_db uuid_b = Inr (Some course_B)"
    by (rule abc_lookup)+
  have na: "uuid_a \<noteq> []" and nb: "uuid_b \<noteq> []" by (rule uuid_not_empty)+
  show ?thesis
    using remove_prerequisite_spec [OF ga nb ob] remove_prerequisite_spec [OF gb na oa]
    by (simp add: abc_db_def course_A_def course_B_def uuid_defs)
qed

section \<open>The order of the checks of add_prerequisite\<close>





section \<open>Termination of the cycle check\<close>

lemma check_dom_all: "All check_circular_reference_check_prereqs_of_prereq_dom"
proof (rule "check_circular_reference_check_prereqs_of_prereq.termination"
    [where R = "inv_image (less_than <*lex*> less_than)
     (\<lambda>x. case x of
        Inl (db, c, p, V) \<Rightarrow> (if course_id c \<in> V then 0 else (1::nat), 0::nat)
      | Inr (db, c, l, V) \<Rightarrow> (if course_id c \<in> V then 0 else 1, Suc (length l)))"],
    goal_cases)
  case 1
  show ?case by auto
next
  case 2
  then show ?case by auto
next
  case 3
  show ?case by auto
next
  case (4 db course prereq_of_prereq rest visited x found visited1)
  then show ?case
    by (cases "course_id course \<in> visited") auto
qed

lemma check_prereqs_of_prereq_visited:
  "course_id course \<in> visited \<Longrightarrow>
   check_prereqs_of_prereq db course l visited = (False, visited)"
  by (induction l) simp_all

lemma check_circular_reference_closed_form:
  "check_circular_reference db course prerequisite visited =
     (course_id course \<notin> visited \<and>
        course_id course \<in> set (map course_id (prerequisites_all db prerequisite)),
      insert (course_id course) visited)"
  by (auto simp: check_prereqs_of_prereq_visited Let_def insert_absorb)

text \<open>
  C6. The check terminates on every database, cyclic or not, from every course,
  prerequisite and visited set: every input of the check and of its loop lies in the
  domain of the recursion (the accessible part of the relation "is called by"), so no
  chain of recursive calls is infinite. Its value needs no recursion to state: the
  answer is true exactly when the course's id was not yet visited and the course is a
  direct prerequisite of the candidate, and the visited set gains the course's id and
  nothing else.
\<close>

theorem check_circular_reference_terminates:
  "check_circular_reference_check_prereqs_of_prereq_dom
     (Inl (db, course, prerequisite, visited)) \<and>
   check_circular_reference_check_prereqs_of_prereq_dom (Inr (db, course, l, visited)) \<and>
   check_circular_reference db course prerequisite visited =
     (course_id course \<notin> visited \<and>
        course_id course \<in> set (map course_id (prerequisites_all db prerequisite)),
      insert (course_id course) visited)"
  using check_dom_all check_circular_reference_closed_form by blast

text \<open>On the database where A and B require each other, the check of C against A returns.\<close>

theorem check_circular_reference_terminates_witness:
  "check_circular_reference_check_prereqs_of_prereq_dom
     (Inl (cyclic_db, course_C, course_A, {})) \<and>
   check_circular_reference cyclic_db course_C course_A {} = (False, {uuid_c})"
  using check_circular_reference_terminates [of cyclic_db course_C course_A "{}" "[]"]
  by (simp add: cyclic_db_def course_A_def course_B_def course_C_def prerequisites_all_def
      uuid_defs)

section \<open>Cycles through more than one course\<close>

lemma abc_acyclic: "acyclic (set (prerequisites abc_db))"
proof -
  have "(uuid_a, uuid_b) \<notin> {(uuid_c, uuid_b)}\<^sup>*"
    by (auto elim: converse_rtranclE simp: uuid_defs)
  moreover have "acyclic ({} :: (string \<times> string) set)"
    by (simp add: acyclic_def)
  ultimately show ?thesis
    by (simp add: abc_db_def acyclic_insert uuid_defs)
qed

lemma abc_path: "(uuid_c, uuid_a) \<in> (set (prerequisites abc_db))\<^sup>+"
proof -
  have "(uuid_c, uuid_b) \<in> set (prerequisites abc_db)"
    and "(uuid_b, uuid_a) \<in> set (prerequisites abc_db)"
    by (simp_all add: abc_db_def)
  then show ?thesis by (meson trancl.intros)
qed

lemma abc_closed_cyclic:
  "\<not> acyclic (set [(uuid_b, uuid_a), (uuid_c, uuid_b), (uuid_a, uuid_c)])"
proof -
  let ?r = "set [(uuid_b, uuid_a), (uuid_c, uuid_b), (uuid_a, uuid_c)]"
  have "(uuid_a, uuid_c) \<in> ?r" "(uuid_c, uuid_b) \<in> ?r" "(uuid_b, uuid_a) \<in> ?r"
    by simp_all
  then have "(uuid_a, uuid_a) \<in> ?r\<^sup>+" by (meson trancl.intros)
  then show ?thesis unfolding acyclic_def by blast
qed

lemma abc_add_a_c:
  "add_prerequisite to_python_example abc_db uuid_a (Some uuid_c) =
     (Inr ''Added C as a prerequisite for A'',
      abc_db\<lparr>prerequisites := [(uuid_b, uuid_a), (uuid_c, uuid_b), (uuid_a, uuid_c)]\<rparr>)"
  by (simp add: add_prerequisite_def get_course_def get_object_def objects_get_def
      to_python_example_def prerequisites_exists_def prerequisites_all_def
      prerequisites_add_def abc_db_def course_A_def course_B_def course_C_def uuid_defs)

lemma abc_validate_a_c:
  "CourseCreateUpdateSerializer_validate abc_db (Some course_A) (Some [course_C]) = Inr ()"
  by (simp add: CourseCreateUpdateSerializer_validate_def check_circular_reference_closed_form
      abc_db_def course_A_def course_B_def course_C_def prerequisites_all_def uuid_defs)

text \<open>
  C1, at the input where the code departs from it. The relation of the three courses
  is acyclic and has the path from C to A (C requires B, B requires A). The view still
  accepts the edge from A to C and stores it, which makes the relation cyclic, and the
  serializer's validation accepts the same edge.
\<close>

theorem add_prerequisite_accepts_edge_closing_path:
  "acyclic (set (prerequisites abc_db)) \<and>
   (uuid_c, uuid_a) \<in> (set (prerequisites abc_db))\<^sup>+ \<and>
   fst (add_prerequisite to_python_example abc_db uuid_a (Some uuid_c)) =
     Inr ''Added C as a prerequisite for A'' \<and>
   \<not> acyclic (set (prerequisites
       (snd (add_prerequisite to_python_example abc_db uuid_a (Some uuid_c))))) \<and>
   CourseCreateUpdateSerializer_validate abc_db (Some course_A) (Some [course_C]) = Inr ()"
  using abc_acyclic abc_path abc_closed_cyclic abc_validate_a_c
  by (simp add: abc_add_a_c)

text \<open>
  C2, at its own scenario. With B requiring A and C requiring B, the request to make C
  a prerequisite of A is answered with status 200 and the row (A, C) is stored; the
  serializer's check of A against C answers false, having visited A only, and its loop
  over the prerequisites raises nothing.
\<close>

theorem scenario_A_requires_C_is_accepted:
  "add_prerequisite to_python_example abc_db uuid_a (Some uuid_c) =
     (Inr ''Added C as a prerequisite for A'',
      abc_db\<lparr>prerequisites := [(uuid_b, uuid_a), (uuid_c, uuid_b), (uuid_a, uuid_c)]\<rparr>) \<and>
   check_circular_reference abc_db course_A course_C {} = (False, {uuid_a}) \<and>
   check_each abc_db course_A [course_C] = Inr ()"
  using abc_add_a_c
  by (simp add: check_circular_reference_closed_form
      abc_db_def course_A_def course_B_def course_C_def prerequisites_all_def uuid_defs)

end
